theory Spec2Isabelle
  imports Complex_Main "HOL-Library.Sublist"
begin

section \<open>Python values, exceptions and effects\<close>

text \<open>
  The embedding of \<^verbatim>\<open>get_aqi.py\<close>. Python exceptions are values of \<open>error\<close>; a function
  that can raise returns \<open>Inl\<close> of the exception together with the world as it was when
  the exception left the function, since writes to files, gauges and the message bus
  that happened before stay visible. Python floats are modelled by exact rationals.
\<close>

datatype error =
    DriverError string
  | ZeroDivisionError
  | TypeError
  | KeyError
  | ValueError
  | SystemExit int

type_synonym pydict = "(string \<times> string) list"

datatype pyval = PyStr string | PyDict pydict

text \<open>The argument of a \<^verbatim>\<open>str(...)\<close> call: the payload of an MQTT message.\<close>

datatype payload = StrOfInt int | StrOfFloat rat | StrOfVal pyval

text \<open>
  What the program does to its environment, in order: \<^verbatim>\<open>time.sleep\<close>, the start of the
  Prometheus HTTP server, a write to an LED device file, the line appended by
  \<^verbatim>\<open>save_log\<close> (without its time stamp) and the \<^verbatim>\<open>paho.mqtt.publish.multiple\<close> call.
\<close>

datatype event =
    TimeSleep int
  | StartHttpServer string int
  | FileWrite string string
  | LogAppend string rat rat int
  | MqttMultiple string int "(string \<times> payload \<times> int \<times> bool) list"

record histogram =
  buckets :: "int list"
  observations :: "rat list"

record metrics =
  PM25 :: rat
  PM10 :: rat
  PM25_HIST :: histogram
  PM10_HIST :: histogram

definition initial_metrics :: metrics where
  "initial_metrics =
     \<lparr>PM25 = 0, PM10 = 0,
      PM25_HIST = \<lparr>buckets = [0, 5, 10, 15, 20, 25, 30, 35, 40, 45, 50, 55, 60, 65, 70, 75,
                              80, 85, 90, 95, 100], observations = []\<rparr>,
      PM10_HIST = \<lparr>buckets = [0, 5, 10, 15, 20, 25, 30, 35, 40, 45, 50, 55, 60, 65, 70, 75,
                              80, 85, 90, 95, 100], observations = []\<rparr>\<rparr>"

definition observe :: "histogram \<Rightarrow> rat \<Rightarrow> histogram" where
  "observe h v = h\<lparr>observations := observations h @ [v]\<rparr>"

subsection \<open>collections.deque with maxlen\<close>

record deque =
  maxlen :: nat
  items :: "rat list"

definition deque_new :: "int \<Rightarrow> deque" where
  "deque_new n = \<lparr>maxlen = nat n, items = []\<rparr>"

text \<open>\<^verbatim>\<open>append\<close> adds on the right and, once the bound is exceeded, drops the leftmost item.\<close>

definition deque_append :: "deque \<Rightarrow> rat \<Rightarrow> deque" where
  "deque_append q v =
     (let ys = items q @ [v]
      in q\<lparr>items := (if maxlen q < length ys then tl ys else ys)\<rparr>)"

text \<open>\<^verbatim>\<open>sum(q) / len(q)\<close>, which raises on an empty deque.\<close>

definition average :: "deque \<Rightarrow> error + rat" where
  "average q =
     (if items q = [] then Inl ZeroDivisionError
      else Inr (sum_list (items q) / of_nat (length (items q))))"

subsection \<open>The world and the sensor driver\<close>

record 's world =
  sensor :: 's
  dequeue_pm25 :: deque
  dequeue_pm10 :: deque
  metrics :: metrics
  trace :: "event list"

text \<open>
  The SDS011 driver is outside the repository: it is a parameter, a state machine over
  its own state \<open>'s\<close> whose three calls may raise. \<open>sleep_False\<close> is
  \<^verbatim>\<open>sensor.sleep(sleep=False)\<close> (wake), \<open>sleep_True\<close> is \<^verbatim>\<open>sensor.sleep(sleep=True)\<close>.
\<close>

record 's driver =
  sleep_False :: "'s \<Rightarrow> error + 's"
  query :: "'s \<Rightarrow> error + ((rat \<times> rat) \<times> 's)"
  sleep_True :: "'s \<Rightarrow> error + 's"

definition emit :: "event \<Rightarrow> 's world \<Rightarrow> 's world" where
  "emit e w = w\<lparr>trace := trace w @ [e]\<rparr>"

text \<open>\<^verbatim>\<open>time.sleep\<close> raises ValueError on a negative length.\<close>

definition time_sleep :: "int \<Rightarrow> 's world \<Rightarrow> (error \<times> 's world) + 's world" where
  "time_sleep n w = (if n < 0 then Inl (ValueError, w) else Inr (emit (TimeSleep n) w))"

text \<open>
  Python's \<^verbatim>\<open>round(x, 1)\<close>: the nearest multiple of one tenth, a tie going to the even
  last digit.
\<close>

definition round_half_even :: "rat \<Rightarrow> int" where
  "round_half_even x =
     (let f = \<lfloor>x\<rfloor>; r = x - of_int f
      in if r < 1 / 2 then f else if 1 / 2 < r then f + 1 else if even f then f else f + 1)"

definition py_round1 :: "rat \<Rightarrow> rat" where
  "py_round1 x = of_int (round_half_even (x * 10)) / 10"

section \<open>The functions of get_aqi.py\<close>

definition get_aqi_interval :: "string \<Rightarrow> int" where
  "get_aqi_interval country =
     (if country \<in> set [''CN'', ''US''] then 86400
      else if sublist country ''EU'' then 3600
      else - 1)"

text \<open>The loop \<^verbatim>\<open>for _ in range(measures)\<close> of \<^verbatim>\<open>get_data\<close>, with its two running sums.\<close>

fun query_loop ::
  "'s driver \<Rightarrow> int \<Rightarrow> nat \<Rightarrow> rat \<times> rat \<Rightarrow> 's world
     \<Rightarrow> (error \<times> 's world) + ((rat \<times> rat) \<times> 's world)" where
  "query_loop d operation_delay 0 acc w = Inr (acc, w)"
| "query_loop d operation_delay (Suc n) acc w =
     (case query d (sensor w) of
        Inl e \<Rightarrow> Inl (e, w)
      | Inr (x, s') \<Rightarrow>
          (case time_sleep operation_delay (w\<lparr>sensor := s'\<rparr>) of
             Inl err \<Rightarrow> Inl err
           | Inr w' \<Rightarrow> query_loop d operation_delay n (fst acc + fst x, snd acc + snd x) w'))"

definition get_data ::
  "'s driver \<Rightarrow> int \<Rightarrow> int \<Rightarrow> int \<Rightarrow> 's world
     \<Rightarrow> (error \<times> 's world) + ((rat \<times> rat) \<times> 's world)" where
  "get_data d measures_arg start_delay operation_delay w =
     (case sleep_False d (sensor w) of
        Inl e \<Rightarrow> Inl (e, w)
      | Inr s1 \<Rightarrow>
     (case time_sleep start_delay (w\<lparr>sensor := s1\<rparr>) of
        Inl err \<Rightarrow> Inl err
      | Inr w1 \<Rightarrow>
     (case query_loop d operation_delay (nat measures_arg) (0, 0) w1 of
        Inl err \<Rightarrow> Inl err
      | Inr ((sum_pm25, sum_pm10), w2) \<Rightarrow>
     if measures_arg = 0 then Inl (ZeroDivisionError, w2)
     else
       let current_pm25 = py_round1 (sum_pm25 / of_int measures_arg);
           current_pm10 = py_round1 (sum_pm10 / of_int measures_arg)
       in
     (case sleep_True d (sensor w2) of
        Inl e \<Rightarrow> Inl (e, w2)
      | Inr s3 \<Rightarrow>
     (case time_sleep operation_delay (w2\<lparr>sensor := s3\<rparr>) of
        Inl err \<Rightarrow> Inl err
      | Inr w3 \<Rightarrow>
          let m = metrics w3;
              m' = m\<lparr>PM25 := current_pm25, PM10 := current_pm10,
                     PM25_HIST := observe (PM25_HIST m) current_pm25,
                     PM10_HIST := observe (PM10_HIST m) (current_pm10 - current_pm25)\<rparr>
          in Inr ((current_pm25, current_pm10), w3\<lparr>metrics := m'\<rparr>))))))"

text \<open>
  The aqipy package is outside the repository: its three entry points are parameters,
  each taking the two averages and the \<^verbatim>\<open>with_level\<close> flag.
\<close>

record aqipy =
  aqi_cn_get_aqi :: "rat \<Rightarrow> rat \<Rightarrow> bool \<Rightarrow> int \<times> pyval"
  caqi_eu_get_caqi :: "rat \<Rightarrow> rat \<Rightarrow> bool \<Rightarrow> int \<times> pyval"
  aqi_us_get_aqi :: "rat \<Rightarrow> rat \<Rightarrow> bool \<Rightarrow> int \<times> pyval"

definition compute_aqi :: "aqipy \<Rightarrow> rat \<Rightarrow> rat \<Rightarrow> string \<Rightarrow> int \<times> pyval \<times> pyval" where
  "compute_aqi lib pm25 pm10 country =
     (if country = ''CN'' then
        (let (current_aqi0, current_aqi_data) = aqi_cn_get_aqi lib pm25 pm10 False;
             (current_aqi, current_aqi_level) = aqi_cn_get_aqi lib pm25 pm10 True
         in (current_aqi, current_aqi_data, current_aqi_level))
      else if country = ''EU'' then
        (let (current_aqi0, current_aqi_data) = caqi_eu_get_caqi lib pm25 pm10 False;
             (current_aqi, current_aqi_level) = caqi_eu_get_caqi lib pm25 pm10 True
         in (current_aqi, current_aqi_data, current_aqi_level))
      else if country = ''US'' then
        (let (current_aqi0, current_aqi_data) = aqi_us_get_aqi lib pm25 pm10 False;
             (current_aqi, current_aqi_level) = aqi_us_get_aqi lib pm25 pm10 True
         in (current_aqi, current_aqi_data, current_aqi_level))
      else (- 1, PyDict [], PyStr ''''))"

text \<open>
  \<^verbatim>\<open>get_aqi_color\<close> returns a string or, where no \<^verbatim>\<open>return\<close> statement is reached,
  Python's \<^verbatim>\<open>None\<close>: the result is \<open>Some\<close> of the string or \<open>None\<close>.
\<close>

definition get_aqi_color :: "string \<Rightarrow> string \<Rightarrow> string option" where
  "get_aqi_color aqi_level country =
     (if country = ''CN'' then
        (if aqi_level = ''excellent'' then Some ''0 255 0''
         else if aqi_level = ''good'' then Some ''255 255 0''
         else if aqi_level = ''lightly polluted'' then Some ''255 153 0''
         else if aqi_level = ''moderately polluted'' then Some ''255 0 0''
         else if aqi_level = ''heavily polluted'' then Some ''84 0 153''
         else if aqi_level = ''severely polluted'' then Some ''128 0 0''
         else None)
      else if country = ''EU'' then
        (if aqi_level = ''very low'' then Some ''0 255 0''
         else if aqi_level = ''low'' then Some ''163 255 15''
         else if aqi_level = ''medium'' then Some ''255 255 0''
         else if aqi_level = ''high'' then Some ''255 153 0''
         else if aqi_level = ''very high'' then Some ''255 0 0''
         else None)
      else if country = ''US'' then
        (if aqi_level = ''Good'' then Some ''121 227 71''
         else if aqi_level = ''Moderate'' then Some ''251 255 93''
         else if aqi_level = ''Unhealthy for Sensitive Groups'' then Some ''226 138 54''
         else if aqi_level = ''Unhealthy'' then Some ''234 51 36''
         else if aqi_level = ''Very Unhealthy'' then Some ''126 63 185''
         else if aqi_level = ''Hazardous'' then Some ''126 63 185''
         else None)
      else Some [])"

text \<open>
  \<^verbatim>\<open>set_turris_omnia_led\<close>: a color other than the empty string has \<^verbatim>\<open>0\<close> written to the
  channel's \<^verbatim>\<open>autonomous\<close> file and then the color to its \<^verbatim>\<open>color\<close> file; adding a line
  feed to \<^verbatim>\<open>None\<close> raises TypeError. Every written line ends with a line feed.
\<close>

definition set_turris_omnia_led ::
  "string option \<Rightarrow> string option \<Rightarrow> 's world \<Rightarrow> (error \<times> 's world) + 's world" where
  "set_turris_omnia_led user1_color user2_color w =
     (case
        (if user1_color \<noteq> Some [] then
           (let w1 = emit (FileWrite ''/sys/class/leds/omnia-led:user1/autonomous''
                             [CHR ''0'', CHR 0x0A]) w
            in case user1_color of
                 None \<Rightarrow> Inl (TypeError, w1)
               | Some c \<Rightarrow>
                   Inr (emit (FileWrite ''/sys/class/leds/omnia-led:user1/color''
                                (c @ [CHR 0x0A])) w1))
         else Inr w)
      of
        Inl err \<Rightarrow> Inl err
      | Inr w2 \<Rightarrow>
          (if user2_color \<noteq> Some [] then
             (let w3 = emit (FileWrite ''/sys/class/leds/omnia-led:user2/autonomous''
                               [CHR ''0'', CHR 0x0A]) w2
              in case user2_color of
                   None \<Rightarrow> Inl (TypeError, w3)
                 | Some c \<Rightarrow>
                     Inr (emit (FileWrite ''/sys/class/leds/omnia-led:user2/color''
                                  (c @ [CHR 0x0A])) w3))
           else Inr w2))"

text \<open>
  \<^verbatim>\<open>save_log\<close> and \<^verbatim>\<open>publish_mqtt\<close> catch every exception of their one call: the call is
  recorded and the function always returns.
\<close>

definition save_log :: "string \<Rightarrow> rat \<Rightarrow> rat \<Rightarrow> int \<Rightarrow> 's world \<Rightarrow> 's world" where
  "save_log logfile logged_pm25 logged_pm10 logged_aqi w =
     emit (LogAppend logfile logged_pm25 logged_pm10 logged_aqi) w"

definition publish_mqtt ::
  "string \<Rightarrow> int \<Rightarrow> (string \<times> payload \<times> int \<times> bool) list \<Rightarrow> 's world \<Rightarrow> 's world" where
  "publish_mqtt hostname portnum mqtt_msgs w =
     emit (MqttMultiple hostname portnum mqtt_msgs) w"

subsection \<open>The command line\<close>

text \<open>
  The options as given on the command line (\<open>None\<close>: not given), numbers and booleans
  after their \<^verbatim>\<open>type=\<close> conversion, and the namespace \<^verbatim>\<open>parse_args\<close> returns, with the
  defaults of the source. A \<^verbatim>\<open>--country\<close> outside its \<^verbatim>\<open>choices\<close> makes argparse print
  an error and exit with status 2.
\<close>

record cmdline =
  opt_bind :: "string option"
  opt_port :: "int option"
  opt_country :: "string option"
  opt_delay :: "int option"
  opt_log :: "string option"
  opt_measures :: "int option"
  opt_mqtt_hostname :: "string option"
  opt_mqtt_port :: "int option"
  opt_mqtt_base_topic :: "string option"
  opt_omnia_leds :: bool
  opt_sensor_operation_delay :: "int option"
  opt_sensor_start_delay :: "int option"
  opt_prometheus :: "bool option"

record args =
  bind_address :: string
  port :: int
  country :: string
  delay :: int
  log_file :: "string option"
  measures_arg :: int
  mqtt_hostname :: "string option"
  mqtt_port :: int
  mqtt_base_topic :: string
  omnia_leds :: bool
  sensor_operation_delay :: int
  sensor_start_delay :: int
  prometheus :: bool

definition or_default :: "'a option \<Rightarrow> 'a \<Rightarrow> 'a" where
  "or_default v dflt = (case v of None \<Rightarrow> dflt | Some x \<Rightarrow> x)"

definition parse_args :: "cmdline \<Rightarrow> error + args" where
  "parse_args c =
     (if (case opt_country c of None \<Rightarrow> False | Some v \<Rightarrow> v \<notin> set [''CN'', ''EU'', ''US''])
      then Inl (SystemExit 2)
      else Inr
        \<lparr>bind_address = or_default (opt_bind c) ''0.0.0.0'',
         port = or_default (opt_port c) 8000,
         country = or_default (opt_country c) ''US'',
         delay = or_default (opt_delay c) 10,
         log_file = opt_log c,
         measures_arg = or_default (opt_measures c) 3,
         mqtt_hostname = opt_mqtt_hostname c,
         mqtt_port = or_default (opt_mqtt_port c) 1883,
         mqtt_base_topic = or_default (opt_mqtt_base_topic c) ''sds011'',
         omnia_leds = opt_omnia_leds c,
         sensor_operation_delay = or_default (opt_sensor_operation_delay c) 1,
         sensor_start_delay = or_default (opt_sensor_start_delay c) 5,
         prometheus = or_default (opt_prometheus c) False\<rparr>)"

subsection \<open>Startup\<close>

text \<open>
  Lines 229 to 235: \<^verbatim>\<open>aqi_interval // args.delay\<close>, floor division of Python integers,
  which raises on a zero divisor, and the replacement of a result below one by one.
\<close>

definition num_measures :: "string \<Rightarrow> int \<Rightarrow> error + int" where
  "num_measures country_code delay_arg =
     (if delay_arg = 0 then Inl ZeroDivisionError
      else
        let n = get_aqi_interval country_code div delay_arg
        in Inr (if n \<le> 0 then 1 else n))"

text \<open>
  Lines 224 to 244, from \<^verbatim>\<open>parse_args()\<close> to the start of the HTTP server. The state of
  the sensor the driver's constructor made is the parameter \<open>s\<close>. An exception here
  leaves before the first effect.
\<close>

definition startup :: "cmdline \<Rightarrow> 's \<Rightarrow> error + (args \<times> 's world)" where
  "startup c s =
     (case parse_args c of
        Inl e \<Rightarrow> Inl e
      | Inr a \<Rightarrow>
          (case num_measures (country a) (delay a) of
             Inl e \<Rightarrow> Inl e
           | Inr n \<Rightarrow>
               let w = \<lparr>sensor = s, dequeue_pm25 = deque_new n, dequeue_pm10 = deque_new n,
                        metrics = initial_metrics, trace = []\<rparr>
               in Inr (a, if prometheus a then emit (StartHttpServer (bind_address a) (port a)) w
                          else w)))"

subsection \<open>The main loop\<close>

text \<open>\<^verbatim>\<open>d[key]\<close>: a string cannot be indexed by a string, a dictionary may lack the key.\<close>

definition subscript :: "pyval \<Rightarrow> string \<Rightarrow> error + string" where
  "subscript v key =
     (case v of
        PyStr s \<Rightarrow> Inl TypeError
      | PyDict d \<Rightarrow> (case map_of d key of None \<Rightarrow> Inl KeyError | Some x \<Rightarrow> Inr x))"

text \<open>\<^verbatim>\<open>s.endswith("/")\<close> and \<^verbatim>\<open>s.rstrip("/")\<close>.\<close>

definition endswith_slash :: "string \<Rightarrow> bool" where
  "endswith_slash s = (s \<noteq> [] \<and> last s = CHR ''/'')"

definition rstrip_slash :: "string \<Rightarrow> string" where
  "rstrip_slash s = rev (dropWhile (\<lambda>c. c = CHR ''/'') (rev s))"

text \<open>Lines 261 to 265: the indicator lights.\<close>

definition led_stage :: "args \<Rightarrow> pyval \<Rightarrow> 's world \<Rightarrow> (error \<times> 's world) + 's world" where
  "led_stage a aqi_level w =
     (if omnia_leds a then
        (case subscript aqi_level ''level'' of
           Inl e \<Rightarrow> Inl (e, w)
         | Inr level \<Rightarrow>
             let color_aqi_pm25 = get_aqi_color level (country a);
                 color_aqi_pm10 = get_aqi_color level (country a)
             in set_turris_omnia_led color_aqi_pm25 color_aqi_pm10 w)
      else Inr w)"

text \<open>Lines 268 and 269: the log file.\<close>

definition log_stage :: "args \<Rightarrow> rat \<Rightarrow> rat \<Rightarrow> int \<Rightarrow> 's world \<Rightarrow> 's world" where
  "log_stage a current_pm25 current_pm10 aqi w =
     (case log_file a of
        None \<Rightarrow> w
      | Some f \<Rightarrow> save_log f current_pm25 current_pm10 aqi w)"

text \<open>Lines 272 to 289: the four MQTT messages.\<close>

definition mqtt_topic :: "string \<Rightarrow> string" where
  "mqtt_topic base_topic =
     (if endswith_slash base_topic then rstrip_slash base_topic else base_topic)"

definition mqtt_messages ::
  "string \<Rightarrow> int \<Rightarrow> pyval \<Rightarrow> rat \<Rightarrow> rat \<Rightarrow> (string \<times> payload \<times> int \<times> bool) list" where
  "mqtt_messages base_topic aqi aqi_level current_pm25 current_pm10 =
     (let topic = mqtt_topic base_topic;
          msg_aqi = (topic @ ''/aqi'', StrOfInt aqi, 0, False);
          msg_level = (topic @ ''/level'', StrOfVal aqi_level, 0, False);
          msg_current_pm25 = (topic @ ''/current_pm25'', StrOfFloat current_pm25, 0, False);
          msg_current_pm10 = (topic @ ''/current_pm10'', StrOfFloat current_pm10, 0, False)
      in [msg_aqi, msg_level, msg_current_pm25, msg_current_pm10])"

definition mqtt_stage :: "args \<Rightarrow> int \<Rightarrow> pyval \<Rightarrow> rat \<Rightarrow> rat \<Rightarrow> 's world \<Rightarrow> 's world" where
  "mqtt_stage a aqi aqi_level current_pm25 current_pm10 w =
     (case mqtt_hostname a of
        None \<Rightarrow> w
      | Some h \<Rightarrow>
          publish_mqtt h (mqtt_port a)
            (mqtt_messages (mqtt_base_topic a) aqi aqi_level current_pm25 current_pm10) w)"

text \<open>Lines 252 and 253: the reading goes into the two windows.\<close>

definition push_reading :: "rat \<Rightarrow> rat \<Rightarrow> 's world \<Rightarrow> 's world" where
  "push_reading current_pm25 current_pm10 w =
     w\<lparr>dequeue_pm25 := deque_append (dequeue_pm25 w) current_pm25,
       dequeue_pm10 := deque_append (dequeue_pm10 w) current_pm10\<rparr>"

text \<open>
  Lines 252 to 293: what one iteration does with the reading \<^verbatim>\<open>get_data\<close> returned.
\<close>

definition export_reading ::
  "args \<Rightarrow> aqipy \<Rightarrow> rat \<Rightarrow> rat \<Rightarrow> 's world \<Rightarrow> (error \<times> 's world) + 's world" where
  "export_reading a lib current_pm25 current_pm10 w1 =
     (let w2 = push_reading current_pm25 current_pm10 w1
      in
      case average (dequeue_pm25 w2) of
        Inl e \<Rightarrow> Inl (e, w2)
      | Inr average_pm25 \<Rightarrow>
      (case average (dequeue_pm10 w2) of
        Inl e \<Rightarrow> Inl (e, w2)
      | Inr average_pm10 \<Rightarrow>
      (case compute_aqi lib average_pm25 average_pm10 (country a) of
        (aqi, aqi_data, aqi_level) \<Rightarrow>
      (case led_stage a aqi_level w2 of
        Inl err \<Rightarrow> Inl err
      | Inr w3 \<Rightarrow>
          time_sleep (delay a)
            (mqtt_stage a aqi aqi_level current_pm25 current_pm10
              (log_stage a current_pm25 current_pm10 aqi w3))))))"

text \<open>One iteration of \<^verbatim>\<open>while(True)\<close>, lines 246 to 293.\<close>

definition cycle :: "args \<Rightarrow> aqipy \<Rightarrow> 's driver \<Rightarrow> 's world \<Rightarrow> (error \<times> 's world) + 's world" where
  "cycle a lib d w =
     (case get_data d (measures_arg a) (sensor_start_delay a) (sensor_operation_delay a) w of
        Inl err \<Rightarrow> Inl err
      | Inr ((current_pm25, current_pm10), w1) \<Rightarrow>
          export_reading a lib current_pm25 current_pm10 w1)"

text \<open>
  The loop has no exit of its own. \<open>main_loop n\<close> is the world after \<open>n\<close> complete
  iterations, or the exception that left the loop, and with it the program, within them.
\<close>

fun main_loop ::
  "nat \<Rightarrow> args \<Rightarrow> aqipy \<Rightarrow> 's driver \<Rightarrow> 's world \<Rightarrow> (error \<times> 's world) + 's world" where
  "main_loop 0 a lib d w = Inr w"
| "main_loop (Suc n) a lib d w =
     (case cycle a lib d w of
        Inl err \<Rightarrow> Inl err
      | Inr w' \<Rightarrow> main_loop n a lib d w')"

text \<open>The whole script, run for \<open>n\<close> iterations of its loop.\<close>

definition program ::
  "nat \<Rightarrow> cmdline \<Rightarrow> aqipy \<Rightarrow> 's driver \<Rightarrow> 's \<Rightarrow> (error \<times> 's world option) + 's world" where
  "program n c lib d s =
     (case startup c s of
        Inl e \<Rightarrow> Inl (e, None)
      | Inr (a, w) \<Rightarrow>
          (case main_loop n a lib d w of
             Inl (e, w') \<Rightarrow> Inl (e, Some w')
           | Inr w' \<Rightarrow> Inr w'))"

section \<open>Notions used to state the properties\<close>

text \<open>The world a call left behind, whether it returned or raised, and what it raised.\<close>

definition result_world :: "(error \<times> 's world) + 's world \<Rightarrow> 's world" where
  "result_world r = (case r of Inl (e, w) \<Rightarrow> w | Inr w \<Rightarrow> w)"

definition raised :: "(error \<times> 'w) + 'a \<Rightarrow> error option" where
  "raised r = (case r of Inl (e, w) \<Rightarrow> Some e | Inr x \<Rightarrow> None)"

text \<open>The events between an earlier world and a later one.\<close>

definition emitted :: "'s world \<Rightarrow> 's world \<Rightarrow> event list" where
  "emitted w w' = drop (length (trace w)) (trace w')"

fun is_sleep :: "event \<Rightarrow> bool" where
  "is_sleep (TimeSleep n) = True"
| "is_sleep e = False"

fun is_file_write :: "event \<Rightarrow> bool" where
  "is_file_write (FileWrite f x) = True"
| "is_file_write e = False"


text \<open>
  \<open>appended w evs w'\<close>: the later world has the windows and the metrics of the earlier
  one, and its trace is longer by \<open>evs\<close>.
\<close>

definition appended :: "'s world \<Rightarrow> event list \<Rightarrow> 's world \<Rightarrow> bool" where
  "appended w evs w' \<longleftrightarrow>
     dequeue_pm25 w' = dequeue_pm25 w \<and> dequeue_pm10 w' = dequeue_pm10 w \<and>
     metrics w' = metrics w \<and> trace w' = trace w @ evs"

text \<open>
  The averaging period in the words of the specification: 86400 seconds for CN and US,
  3600 for EU, none for another code.
\<close>

definition spec_averaging_seconds :: "string \<Rightarrow> int option" where
  "spec_averaging_seconds c =
     (if c = ''CN'' \<or> c = ''US'' then Some 86400 else if c = ''EU'' then Some 3600 else None)"

text \<open>
  The sub-samples of one measurement, by themselves: the results of \<open>k\<close> successive
  \<^verbatim>\<open>query()\<close> calls from a sensor state, or the first exception.
\<close>

fun sub_samples :: "'s driver \<Rightarrow> nat \<Rightarrow> 's \<Rightarrow> error + ((rat \<times> rat) list \<times> 's)" where
  "sub_samples d 0 s = Inr ([], s)"
| "sub_samples d (Suc k) s =
     (case query d s of
        Inl e \<Rightarrow> Inl e
      | Inr (x, s') \<Rightarrow>
          (case sub_samples d k s' of
             Inl e \<Rightarrow> Inl e
           | Inr (xs, s'') \<Rightarrow> Inr (x # xs, s'')))"

text \<open>
  What the driver raises, if anything, in the calls of one measurement of \<open>k\<close>
  sub-samples: waking, the queries, going to sleep.
\<close>

definition sensor_failure :: "'s driver \<Rightarrow> nat \<Rightarrow> 's \<Rightarrow> error option" where
  "sensor_failure d k s =
     (case sleep_False d s of
        Inl e \<Rightarrow> Some e
      | Inr s1 \<Rightarrow>
          (case sub_samples d k s1 of
             Inl e \<Rightarrow> Some e
           | Inr (xs, s2) \<Rightarrow>
               (case sleep_True d s2 of Inl e \<Rightarrow> Some e | Inr s3 \<Rightarrow> None)))"

text \<open>The color files of the two LED channels, and the line feed that ends a written line.\<close>

definition user1_color_file :: string where
  "user1_color_file = ''/sys/class/leds/omnia-led:user1/color''"

definition user2_color_file :: string where
  "user2_color_file = ''/sys/class/leds/omnia-led:user2/color''"

definition same_colors :: "event list \<Rightarrow> bool" where
  "same_colors evs \<longleftrightarrow>
     (\<forall>x y. FileWrite user1_color_file x \<in> set evs \<longrightarrow>
            FileWrite user2_color_file y \<in> set evs \<longrightarrow> x = y)"

text \<open>The events after the LED writes: the log line, the publication, the final sleep.\<close>

definition tail_events :: "args \<Rightarrow> int \<Rightarrow> pyval \<Rightarrow> rat \<Rightarrow> rat \<Rightarrow> event list" where
  "tail_events a aqi lvl x y =
     (case log_file a of None \<Rightarrow> [] | Some f \<Rightarrow> [LogAppend f x y aqi]) @
     (case mqtt_hostname a of
        None \<Rightarrow> []
      | Some h \<Rightarrow> [MqttMultiple h (mqtt_port a) (mqtt_messages (mqtt_base_topic a) aqi lvl x y)])"

subsection \<open>Inputs for concrete runs\<close>

text \<open>
  A driver that replays a script: its state is the list of readings still to come,
  \<^verbatim>\<open>query()\<close> hands out the next one and raises when none is left; waking and sleeping
  succeed.
\<close>

definition scripted_driver :: "(rat \<times> rat) list driver" where
  "scripted_driver =
     \<lparr>sleep_False = (\<lambda>s. Inr s),
      query = (\<lambda>s. case s of [] \<Rightarrow> Inl (DriverError ''no reply'') | x # xs \<Rightarrow> Inr (x, xs)),
      sleep_True = (\<lambda>s. Inr s)\<rparr>"

text \<open>A stand-in for aqipy that reports index 46 and level Good whatever the averages.\<close>

definition constant_aqipy :: aqipy where
  "constant_aqipy =
     \<lparr>aqi_cn_get_aqi = (\<lambda>pm25 pm10 with_level.
        (46, if with_level then PyDict [(''level'', ''Good'')] else PyDict [])),
      caqi_eu_get_caqi = (\<lambda>pm25 pm10 with_level.
        (46, if with_level then PyDict [(''level'', ''Good'')] else PyDict [])),
      aqi_us_get_aqi = (\<lambda>pm25 pm10 with_level.
        (46, if with_level then PyDict [(''level'', ''Good'')] else PyDict []))\<rparr>"

text \<open>
  \<^verbatim>\<open>-c US -d 10 -m 3 -l aqi.csv -n broker -i aqi/ -o\<close>, and the same with a country that
  is not among the choices.
\<close>

definition us_cmdline :: cmdline where
  "us_cmdline =
     \<lparr>opt_bind = None, opt_port = None, opt_country = Some ''US'', opt_delay = Some 10,
      opt_log = Some ''aqi.csv'', opt_measures = Some 3, opt_mqtt_hostname = Some ''broker'',
      opt_mqtt_port = None, opt_mqtt_base_topic = Some ''aqi/'', opt_omnia_leds = True,
      opt_sensor_operation_delay = None, opt_sensor_start_delay = None,
      opt_prometheus = None\<rparr>"

definition fr_cmdline :: cmdline where
  "fr_cmdline = us_cmdline\<lparr>opt_country := Some ''FR''\<rparr>"

text \<open>The namespace of the first command line, and a world whose sensor has three readings.\<close>

definition us_args :: args where
  "us_args =
     \<lparr>bind_address = ''0.0.0.0'', port = 8000, country = ''US'', delay = 10,
      log_file = Some ''aqi.csv'', measures_arg = 3, mqtt_hostname = Some ''broker'',
      mqtt_port = 1883, mqtt_base_topic = ''aqi/'', omnia_leds = True,
      sensor_operation_delay = 1, sensor_start_delay = 5, prometheus = False\<rparr>"

definition three_readings :: "(rat \<times> rat) list world" where
  "three_readings =
     \<lparr>sensor = [(10, 20), (12, 22), (11, 21)],
      dequeue_pm25 = deque_new 8640, dequeue_pm10 = deque_new 8640,
      metrics = initial_metrics, trace = []\<rparr>"

definition no_readings :: "(rat \<times> rat) list world" where
  "no_readings = three_readings\<lparr>sensor := []\<rparr>"

text \<open>
  That world after the measurement of the first iteration under \<open>us_args\<close>, and after
  the whole iteration.
\<close>

definition three_measured :: "(rat \<times> rat) list world" where
  "three_measured =
     \<lparr>sensor = [], dequeue_pm25 = deque_new 8640, dequeue_pm10 = deque_new 8640,
      metrics = initial_metrics
        \<lparr>PM25 := 11, PM10 := 21,
         PM25_HIST := observe (PM25_HIST initial_metrics) 11,
         PM10_HIST := observe (PM10_HIST initial_metrics) 10\<rparr>,
      trace = [TimeSleep 5, TimeSleep 1, TimeSleep 1, TimeSleep 1, TimeSleep 1]\<rparr>"

definition three_exported :: "(rat \<times> rat) list world" where
  "three_exported =
     three_measured
       \<lparr>dequeue_pm25 := \<lparr>maxlen = 8640, items = [11]\<rparr>,
        dequeue_pm10 := \<lparr>maxlen = 8640, items = [21]\<rparr>,
        trace :=
          [TimeSleep 5, TimeSleep 1, TimeSleep 1, TimeSleep 1, TimeSleep 1,
           FileWrite ''/sys/class/leds/omnia-led:user1/autonomous'' [CHR ''0'', CHR 0x0A],
           FileWrite ''/sys/class/leds/omnia-led:user1/color'' (''121 227 71'' @ [CHR 0x0A]),
           FileWrite ''/sys/class/leds/omnia-led:user2/autonomous'' [CHR ''0'', CHR 0x0A],
           FileWrite ''/sys/class/leds/omnia-led:user2/color'' (''121 227 71'' @ [CHR 0x0A]),
           LogAppend ''aqi.csv'' 11 21 46,
           MqttMultiple ''broker'' 1883
            [(''aqi/aqi'', StrOfInt 46, 0, False),
             (''aqi/level'', StrOfVal (PyDict [(''level'', ''Good'')]), 0, False),
             (''aqi/current_pm25'', StrOfFloat 11, 0, False),
             (''aqi/current_pm10'', StrOfFloat 21, 0, False)],
           TimeSleep 10]\<rparr>"

section \<open>Properties\<close>

subsection \<open>The averaging interval\<close>

lemma sublist_EU: "sublist c ''EU'' \<longleftrightarrow> c \<in> {[], ''E'', ''U'', ''EU''}"
  by (auto simp: sublist_Cons_right prefix_Cons)

text \<open>
  Claim C10. \<^verbatim>\<open>country in ("EU")\<close> is a substring test, since \<^verbatim>\<open>("EU")\<close> is a string and
  not a tuple: \<^verbatim>\<open>"E"\<close>, \<^verbatim>\<open>"U"\<close> and the empty string get 3600 as \<^verbatim>\<open>"EU"\<close> does, and
  the result is \<open>-1\<close> exactly for the inputs that are neither \<^verbatim>\<open>"CN"\<close> nor \<^verbatim>\<open>"US"\<close> nor a
  substring of \<^verbatim>\<open>"EU"\<close>, the substrings of \<^verbatim>\<open>"EU"\<close> being those four strings.
\<close>

theorem get_aqi_interval_substring:
  "get_aqi_interval ''E'' = 3600 \<and> get_aqi_interval ''U'' = 3600 \<and>
   get_aqi_interval [] = 3600 \<and> get_aqi_interval ''EU'' = 3600 \<and>
   (\<forall>c. get_aqi_interval c = - 1 \<longleftrightarrow> c \<notin> {''CN'', ''US''} \<and> \<not> sublist c ''EU'') \<and>
   (\<forall>c. sublist c ''EU'' \<longleftrightarrow> c \<in> {[], ''E'', ''U'', ''EU''})"
  by (simp add: get_aqi_interval_def sublist_EU)

subsection \<open>The color lookup\<close>

text \<open>
  Claim C5. The lookup is claimed to return the empty string for every pair outside
  the tables. It does so for a country outside the three, and returns \<^verbatim>\<open>None\<close> for an
  unmapped level of a country it knows: \<^verbatim>\<open>"good"\<close> is a level of CN, not of US.
\<close>

theorem get_aqi_color_unmapped_level:
  "get_aqi_color ''good'' ''US'' = None \<and> get_aqi_color ''good'' ''XX'' = Some []"
  by (simp add: get_aqi_color_def)

subsection \<open>The window capacity\<close>

lemma get_aqi_interval_supported:
  "get_aqi_interval ''CN'' = 86400" "get_aqi_interval ''US'' = 86400"
  "get_aqi_interval ''EU'' = 3600"
  by (simp_all add: get_aqi_interval_def sublist_EU)

lemma num_measures_supported:
  assumes "spec_averaging_seconds c = Some t" and "1 \<le> dl"
  shows "num_measures c dl = Inr (max 1 (t div dl))"
proof -
  from assms(1) have "get_aqi_interval c = t" and "0 < t"
    by (auto simp: spec_averaging_seconds_def get_aqi_interval_supported split: if_splits)
  with assms(2) show ?thesis
    by (auto simp: num_measures_def Let_def max_def)
qed

lemma parse_args_given:
  assumes "opt_country cl = Some c" and "c \<in> {''CN'', ''EU'', ''US''}"
    and "opt_delay cl = Some dl"
  shows "\<exists>a. parse_args cl = Inr a \<and> country a = c \<and> delay a = dl"
  using assms by (auto simp: parse_args_def or_default_def)

text \<open>
  Claim C2. For a supported country and a sample delay of at least one given on the
  command line, startup succeeds and gives both windows the capacity
  \<open>max 1 (averaging_seconds div delay)\<close>, with the averaging period of the
  specification; the capacity is at least one, and is one when the delay exceeds the
  period.
\<close>

theorem window_capacity:
  assumes "c \<in> {''CN'', ''EU'', ''US''}" and "1 \<le> dl"
    and "opt_country cl = Some c" and "opt_delay cl = Some dl"
  shows "\<exists>t a w. spec_averaging_seconds c = Some t \<and>
           num_measures c dl = Inr (max 1 (t div dl)) \<and>
           (t < dl \<longrightarrow> max 1 (t div dl) = 1) \<and>
           startup cl s = Inr (a, w) \<and>
           maxlen (dequeue_pm25 w) = nat (max 1 (t div dl)) \<and>
           maxlen (dequeue_pm10 w) = nat (max 1 (t div dl)) \<and>
           1 \<le> maxlen (dequeue_pm25 w) \<and> 1 \<le> maxlen (dequeue_pm10 w)"
proof -
  from assms(1) obtain t where t: "spec_averaging_seconds c = Some t"
    by (auto simp: spec_averaging_seconds_def)
  then have "0 < t"
    by (auto simp: spec_averaging_seconds_def split: if_splits)
  note n = num_measures_supported [OF t assms(2)]
  from parse_args_given [OF assms(3) assms(1) assms(4)] obtain a where
    a: "parse_args cl = Inr a" "country a = c" "delay a = dl" by blast
  have small: "t < dl \<longrightarrow> max 1 (t div dl) = 1"
    using \<open>0 < t\<close> by simp
  have "\<exists>w. startup cl s = Inr (a, w) \<and>
           maxlen (dequeue_pm25 w) = nat (max 1 (t div dl)) \<and>
           maxlen (dequeue_pm10 w) = nat (max 1 (t div dl))"
    using a n by (simp add: startup_def deque_new_def emit_def Let_def)
  with t n small show ?thesis by auto
qed

theorem window_capacity_witness:
  "''US'' \<in> {''CN'', ''EU'', ''US''} \<and> (1::int) \<le> 10 \<and>
   opt_country us_cmdline = Some ''US'' \<and> opt_delay us_cmdline = Some 10 \<and>
   num_measures ''US'' 10 = Inr 8640 \<and>
   (\<exists>a w. startup us_cmdline ([] :: (rat \<times> rat) list) = Inr (a, w) \<and>
      maxlen (dequeue_pm25 w) = 8640 \<and> maxlen (dequeue_pm10 w) = 8640) \<and>
   num_measures ''EU'' 7200 = Inr 1"
  using window_capacity [of "''US''" 10 us_cmdline "[] :: (rat \<times> rat) list"]
    window_capacity [of "''EU''" 7200
      "us_cmdline\<lparr>opt_country := Some ''EU'', opt_delay := Some 7200\<rparr>"
      "[] :: (rat \<times> rat) list"]
  by (auto simp add: spec_averaging_seconds_def us_cmdline_def)

subsection \<open>The rolling window\<close>

lemma maxlen_deque_append [simp]: "maxlen (deque_append q v) = maxlen q"
  by (simp add: deque_append_def Let_def)

lemma maxlen_foldl_append [simp]: "maxlen (foldl deque_append q vs) = maxlen q"
  by (induction vs arbitrary: q) simp_all






subsection \<open>What each step leaves behind\<close>

lemma appended_refl: "appended w [] w"
  by (simp add: appended_def)

lemma appended_sensor: "appended (w\<lparr>sensor := s\<rparr>) evs w' \<longleftrightarrow> appended w evs w'"
  by (simp add: appended_def)

lemma appended_trans: "appended w xs w1 \<Longrightarrow> appended w1 ys w2 \<Longrightarrow> appended w (xs @ ys) w2"
  by (simp add: appended_def)

lemma appended_emit: "appended w [e] (emit e w)"
  by (simp add: appended_def emit_def)

lemma appended_emitted: "appended w evs w' \<Longrightarrow> emitted w w' = evs \<and> prefix (trace w) (trace w')"
  by (simp add: appended_def emitted_def)

lemma time_sleep_Inr: "time_sleep n w = Inr w' \<Longrightarrow> w' = emit (TimeSleep n) w \<and> 0 \<le> n"
  by (simp add: time_sleep_def split: if_splits)

lemma time_sleep_Inl: "time_sleep n w = Inl x \<Longrightarrow> x = (ValueError, w) \<and> n < 0"
  by (simp add: time_sleep_def split: if_splits)

lemma time_sleep_appended:
  "\<exists>evs. appended w evs (result_world (time_sleep n w)) \<and> list_all is_sleep evs"
proof (cases "n < 0")
  case True
  then have "appended w [] (result_world (time_sleep n w))"
    by (simp add: time_sleep_def result_world_def appended_refl)
  then show ?thesis by (intro exI [of _ "[]"]) simp
next
  case False
  then have "appended w [TimeSleep n] (result_world (time_sleep n w))"
    by (simp add: time_sleep_def result_world_def appended_emit)
  then show ?thesis by (intro exI [of _ "[TimeSleep n]"]) simp
qed

lemma query_loop_appended:
  "\<exists>evs. appended w evs (case query_loop d od n acc w of Inl (e, w') \<Rightarrow> w' | Inr (r, w') \<Rightarrow> w')
         \<and> list_all is_sleep evs"
proof (induction n arbitrary: acc w)
  case 0
  show ?case by (intro exI [of _ "[]"]) (simp add: appended_refl)
next
  case (Suc n)
  show ?case
  proof (cases "query d (sensor w)")
    case (Inl e)
    then show ?thesis by (intro exI [of _ "[]"]) (simp add: appended_refl)
  next
    case (Inr xs)
    obtain x s' where xs: "xs = (x, s')" by (cases xs)
    show ?thesis
    proof (cases "od < 0")
      case True
      with Inr xs show ?thesis
        by (intro exI [of _ "[]"]) (simp add: time_sleep_def appended_def)
    next
      case False
      let ?w1 = "emit (TimeSleep od) (w\<lparr>sensor := s'\<rparr>)"
      let ?acc = "(fst acc + fst x, snd acc + snd x)"
      from Suc.IH [where acc = ?acc and w = ?w1] obtain evs where
        evs: "appended ?w1 evs (case query_loop d od n ?acc ?w1 of Inl (e, w') \<Rightarrow> w' | Inr (r, w') \<Rightarrow> w')"
          "list_all is_sleep evs" by blast
      have "appended w [TimeSleep od] ?w1"
        by (simp add: appended_def emit_def)
      from appended_trans [OF this evs(1)] evs(2) Inr xs False show ?thesis
        by (intro exI [of _ "[TimeSleep od] @ evs"]) (simp add: time_sleep_def)
    qed
  qed
qed


lemma query_loop_Inl:
  "query_loop d od n acc w = Inl (e, w') \<Longrightarrow> \<exists>evs. appended w evs w' \<and> list_all is_sleep evs"
  using query_loop_appended [of w d od n acc] by simp

lemma query_loop_Inr:
  "query_loop d od n acc w = Inr (r, w') \<Longrightarrow> \<exists>evs. appended w evs w' \<and> list_all is_sleep evs"
  using query_loop_appended [of w d od n acc] by simp

lemma get_data_Inl:
  assumes "get_data d m sd od w = Inl (e, w')"
  shows "\<exists>evs. appended w evs w' \<and> list_all is_sleep evs"
proof (cases "sleep_False d (sensor w)")
  case (Inl e0)
  with assms have "w' = w" by (simp add: get_data_def)
  then show ?thesis by (intro exI [of _ "[]"]) (simp add: appended_refl)
next
  case s1: (Inr s1)
  show ?thesis
  proof (cases "time_sleep sd (w\<lparr>sensor := s1\<rparr>)")
    case (Inl x)
    with assms s1 time_sleep_Inl [OF Inl] have "w' = w\<lparr>sensor := s1\<rparr>"
      by (simp add: get_data_def)
    then show ?thesis by (intro exI [of _ "[]"]) (simp add: appended_def)
  next
    case w1: (Inr w1)
    from time_sleep_Inr [OF w1] have a1: "appended w [TimeSleep sd] w1"
      by (simp add: appended_def emit_def)
    show ?thesis
    proof (cases "query_loop d od (nat m) (0, 0) w1")
      case (Inl x)
      with assms s1 w1 have "query_loop d od (nat m) (0, 0) w1 = Inl (e, w')"
        by (simp add: get_data_def)
      from query_loop_Inl [OF this] obtain evs where "appended w1 evs w'" "list_all is_sleep evs"
        by blast
      with appended_trans [OF a1 this(1)] show ?thesis
        by (intro exI [of _ "[TimeSleep sd] @ evs"]) simp
    next
      case (Inr r)
      obtain acc w2 where r: "r = (acc, w2)" by (cases r)
      from query_loop_Inr [OF Inr [unfolded r]] obtain evs where
        evs: "appended w1 evs w2" "list_all is_sleep evs" by blast
      have a2: "appended w ([TimeSleep sd] @ evs) w2"
        by (rule appended_trans [OF a1 evs(1)])
      show ?thesis
      proof (cases "m = 0")
        case True
        with assms s1 w1 Inr r have "w' = w2" by (simp add: get_data_def split: prod.splits)
        with a2 evs(2) show ?thesis by (intro exI [of _ "[TimeSleep sd] @ evs"]) simp
      next
        case m: False
        show ?thesis
        proof (cases "sleep_True d (sensor w2)")
          case (Inl e3)
          with assms s1 w1 Inr r m have "w' = w2"
            by (simp add: get_data_def Let_def split: prod.splits)
          with a2 evs(2) show ?thesis by (intro exI [of _ "[TimeSleep sd] @ evs"]) simp
        next
          case s3: (Inr s3)
          with assms s1 w1 Inr r m have "w' = w2\<lparr>sensor := s3\<rparr>"
            by (auto simp add: get_data_def Let_def time_sleep_def split: prod.splits if_splits)
          with a2 evs(2) show ?thesis
            by (intro exI [of _ "[TimeSleep sd] @ evs"]) (simp add: appended_def)
        qed
      qed
    qed
  qed
qed

lemma get_data_Inr:
  assumes "get_data d m sd od w = Inr ((pm25, pm10), w')"
  shows "\<exists>evs. list_all is_sleep evs \<and> trace w' = trace w @ evs \<and>
           dequeue_pm25 w' = dequeue_pm25 w \<and> dequeue_pm10 w' = dequeue_pm10 w \<and>
           metrics w' = (metrics w)\<lparr>PM25 := pm25, PM10 := pm10,
                     PM25_HIST := observe (PM25_HIST (metrics w)) pm25,
                     PM10_HIST := observe (PM10_HIST (metrics w)) (pm10 - pm25)\<rparr>"
proof -
  from assms obtain s1 w1 acc w2 s3 w3 where
    s1: "sleep_False d (sensor w) = Inr s1" and
    w1: "time_sleep sd (w\<lparr>sensor := s1\<rparr>) = Inr w1" and
    w2: "query_loop d od (nat m) (0, 0) w1 = Inr (acc, w2)" and
    s3: "sleep_True d (sensor w2) = Inr s3" and
    w3: "time_sleep od (w2\<lparr>sensor := s3\<rparr>) = Inr w3" and
    w': "w' = w3\<lparr>metrics := (metrics w3)\<lparr>PM25 := pm25, PM10 := pm10,
                     PM25_HIST := observe (PM25_HIST (metrics w3)) pm25,
                     PM10_HIST := observe (PM10_HIST (metrics w3)) (pm10 - pm25)\<rparr>\<rparr>"
    by (auto simp: get_data_def Let_def split: sum.splits prod.splits if_splits)
  from time_sleep_Inr [OF w1] have a1: "appended w [TimeSleep sd] w1"
    by (simp add: appended_def emit_def)
  from query_loop_Inr [OF w2] obtain evs where
    evs: "appended w1 evs w2" "list_all is_sleep evs" by blast
  from time_sleep_Inr [OF w3] have a3: "appended w2 [TimeSleep od] w3"
    by (simp add: appended_def emit_def)
  have "appended w (([TimeSleep sd] @ evs) @ [TimeSleep od]) w3"
    by (rule appended_trans [OF appended_trans [OF a1 evs(1)] a3])
  with evs(2) w' show ?thesis
    by (intro exI [of _ "([TimeSleep sd] @ evs) @ [TimeSleep od]"]) (simp add: appended_def)
qed

lemma set_turris_omnia_led_events:
  "\<exists>evs. appended w evs (result_world (set_turris_omnia_led c1 c2 w)) \<and>
     list_all is_file_write evs \<and>
     (\<forall>x. FileWrite user1_color_file x \<in> set evs \<longrightarrow> (\<exists>c. c1 = Some c \<and> x = c @ [CHR 0x0A])) \<and>
     (\<forall>y. FileWrite user2_color_file y \<in> set evs \<longrightarrow> (\<exists>c. c2 = Some c \<and> y = c @ [CHR 0x0A]))"
  by (cases c1; cases c2)
    (auto simp: set_turris_omnia_led_def result_world_def appended_def emit_def Let_def
      user1_color_file_def user2_color_file_def)

lemma led_stage_events:
  "\<exists>evs. appended w evs (result_world (led_stage a lvl w)) \<and>
     list_all is_file_write evs \<and> same_colors evs"
proof (cases "omnia_leds a")
  case False
  then show ?thesis
    by (intro exI [of _ "[]"]) (simp add: led_stage_def result_world_def appended_refl same_colors_def)
next
  case True
  show ?thesis
  proof (cases "subscript lvl ''level''")
    case (Inl e)
    with True show ?thesis
      by (intro exI [of _ "[]"])
        (simp add: led_stage_def result_world_def appended_refl same_colors_def)
  next
    case (Inr level)
    let ?c = "get_aqi_color level (country a)"
    from set_turris_omnia_led_events [of w ?c ?c] obtain evs where
      evs: "appended w evs (result_world (set_turris_omnia_led ?c ?c w))"
        "list_all is_file_write evs"
        "\<forall>x. FileWrite user1_color_file x \<in> set evs \<longrightarrow> (\<exists>c. ?c = Some c \<and> x = c @ [CHR 0x0A])"
        "\<forall>y. FileWrite user2_color_file y \<in> set evs \<longrightarrow> (\<exists>c. ?c = Some c \<and> y = c @ [CHR 0x0A])"
      by blast
    have "same_colors evs"
      unfolding same_colors_def
    proof (intro allI impI)
      fix x y
      assume "FileWrite user1_color_file x \<in> set evs" "FileWrite user2_color_file y \<in> set evs"
      with evs(3,4) show "x = y" by fastforce
    qed
    with evs(1,2) True Inr show ?thesis
      by (intro exI [of _ evs]) (simp add: led_stage_def Let_def)
  qed
qed


lemma sleep_not_file_write: "is_sleep e \<Longrightarrow> \<not> is_file_write e"
  by (cases e) simp_all



lemma log_stage_appended:
  "appended w (case log_file a of None \<Rightarrow> [] | Some f \<Rightarrow> [LogAppend f x y aqi])
     (log_stage a x y aqi w)"
  by (simp add: log_stage_def save_log_def appended_def emit_def split: option.splits)

lemma mqtt_stage_appended:
  "appended w
     (case mqtt_hostname a of
        None \<Rightarrow> []
      | Some h \<Rightarrow> [MqttMultiple h (mqtt_port a) (mqtt_messages (mqtt_base_topic a) aqi lvl x y)])
     (mqtt_stage a aqi lvl x y w)"
  by (simp add: mqtt_stage_def publish_mqtt_def appended_def emit_def split: option.splits)

lemma push_reading_fields [simp]:
  "trace (push_reading x y w) = trace w" "metrics (push_reading x y w) = metrics w"
  "dequeue_pm25 (push_reading x y w) = deque_append (dequeue_pm25 w) x"
  "dequeue_pm10 (push_reading x y w) = deque_append (dequeue_pm10 w) y"
  by (simp_all add: push_reading_def)

text \<open>The three ways an iteration can go on after the reading was pushed.\<close>

lemma export_reading_cases:
  "(\<exists>e. export_reading a lib x y w1 = Inl (e, push_reading x y w1)) \<or>
   (\<exists>lvl err. led_stage a lvl (push_reading x y w1) = Inl err \<and>
      export_reading a lib x y w1 = Inl err) \<or>
   (\<exists>aqi lvl w3. led_stage a lvl (push_reading x y w1) = Inr w3 \<and>
      export_reading a lib x y w1 =
        time_sleep (delay a) (mqtt_stage a aqi lvl x y (log_stage a x y aqi w3)))"
proof (cases "average (dequeue_pm25 (push_reading x y w1))")
  case (Inl e)
  then show ?thesis by (simp add: export_reading_def Let_def)
next
  case a25: (Inr average_pm25)
  show ?thesis
  proof (cases "average (dequeue_pm10 (push_reading x y w1))")
    case (Inl e)
    with a25 show ?thesis by (simp add: export_reading_def Let_def)
  next
    case a10: (Inr average_pm10)
    obtain aqi aqi_data aqi_level where
      c: "compute_aqi lib average_pm25 average_pm10 (country a) = (aqi, aqi_data, aqi_level)"
      by (cases "compute_aqi lib average_pm25 average_pm10 (country a)")
    show ?thesis
    proof (cases "led_stage a aqi_level (push_reading x y w1)")
      case (Inl err)
      with a25 a10 c have "export_reading a lib x y w1 = Inl err"
        by (simp add: export_reading_def Let_def)
      with Inl show ?thesis by blast
    next
      case (Inr w3)
      with a25 a10 c have "export_reading a lib x y w1 =
          time_sleep (delay a) (mqtt_stage a aqi aqi_level x y (log_stage a x y aqi w3))"
        by (simp add: export_reading_def Let_def)
      with Inr show ?thesis by blast
    qed
  qed
qed

lemma tail_events_no_file_write: "list_all (\<lambda>e. \<not> is_file_write e) (tail_events a aqi lvl x y)"
  by (simp add: tail_events_def split: option.splits)


lemma export_reading_world:
  "\<exists>leds rest. list_all is_file_write leds \<and> same_colors leds \<and>
     list_all (\<lambda>e. \<not> is_file_write e) rest \<and>
     metrics (result_world (export_reading a lib x y w1)) = metrics w1 \<and>
     trace (result_world (export_reading a lib x y w1)) = trace w1 @ leds @ rest"
proof -
  from export_reading_cases [of a lib x y w1] consider
    (average) e where "export_reading a lib x y w1 = Inl (e, push_reading x y w1)"
  | (leds) lvl err where "led_stage a lvl (push_reading x y w1) = Inl err"
      "export_reading a lib x y w1 = Inl err"
  | (exported) aqi lvl w3 where "led_stage a lvl (push_reading x y w1) = Inr w3"
      "export_reading a lib x y w1 =
         time_sleep (delay a) (mqtt_stage a aqi lvl x y (log_stage a x y aqi w3))"
    by blast
  then show ?thesis
  proof cases
  case (average e)
  then show ?thesis
    by (intro exI [of _ "[]"]) (simp add: result_world_def same_colors_def)
next
  case (leds lvl err)
  from led_stage_events [of "push_reading x y w1" a lvl] obtain evs where
    evs: "appended (push_reading x y w1) evs (result_world (led_stage a lvl (push_reading x y w1)))"
      "list_all is_file_write evs" "same_colors evs"
    by blast
  from evs(1) leds have
    "metrics (result_world (export_reading a lib x y w1)) = metrics w1 \<and>
     trace (result_world (export_reading a lib x y w1)) = trace w1 @ evs @ []"
    by (simp add: appended_def)
  with evs(2,3) show ?thesis
    by (intro exI [of _ evs] exI [of _ "[]"]) simp
next
  case (exported aqi lvl w3)
  from led_stage_events [of "push_reading x y w1" a lvl] exported(1) obtain leds where
    leds: "appended (push_reading x y w1) leds w3" "list_all is_file_write leds" "same_colors leds"
    by (auto simp: result_world_def)
  let ?w4 = "log_stage a x y aqi w3"
  let ?w5 = "mqtt_stage a aqi lvl x y ?w4"
  have a5: "appended (push_reading x y w1) (leds @ tail_events a aqi lvl x y) ?w5"
    unfolding tail_events_def
    using appended_trans [OF leds(1) appended_trans [OF log_stage_appended mqtt_stage_appended]]
    by simp
  from time_sleep_appended [of ?w5 "delay a"] obtain sl where
    sl: "appended ?w5 sl (result_world (time_sleep (delay a) ?w5))" "list_all is_sleep sl"
    by blast
  have nfw: "list_all (\<lambda>e. \<not> is_file_write e) (tail_events a aqi lvl x y @ sl)"
    using sl(2) tail_events_no_file_write [of a aqi lvl x y]
    by (auto simp: list_all_iff dest: sleep_not_file_write)
  from appended_trans [OF a5 sl(1)] exported(2) have
    "metrics (result_world (export_reading a lib x y w1)) = metrics w1 \<and>
     trace (result_world (export_reading a lib x y w1)) =
       trace w1 @ leds @ (tail_events a aqi lvl x y @ sl)"
    by (simp add: appended_def)
  with leds(2,3) nfw show ?thesis
    by (intro exI [of _ leds] exI [of _ "tail_events a aqi lvl x y @ sl"]) simp
  qed
qed

subsection \<open>Definitions unfolded to run the model on concrete inputs\<close>

lemmas run_defs = program_def startup_def parse_args_def us_cmdline_def fr_cmdline_def
  or_default_def num_measures_def get_aqi_interval_def deque_new_def initial_metrics_def
  emit_def cycle_def get_data_def scripted_driver_def time_sleep_def py_round1_def
  round_half_even_def observe_def export_reading_def push_reading_def deque_append_def
  average_def compute_aqi_def constant_aqipy_def led_stage_def subscript_def get_aqi_color_def
  set_turris_omnia_led_def log_stage_def save_log_def mqtt_stage_def publish_mqtt_def
  mqtt_messages_def mqtt_topic_def endswith_slash_def rstrip_slash_def raised_def
  result_world_def emitted_def us_args_def three_readings_def no_readings_def
  user1_color_file_def user2_color_file_def sensor_failure_def Let_def

subsection \<open>One iteration\<close>

lemma cycle_Inl:
  "get_data d (measures_arg a) (sensor_start_delay a) (sensor_operation_delay a) w = Inl err \<Longrightarrow>
   cycle a lib d w = Inl err"
  by (simp add: cycle_def)

lemma cycle_Inr:
  "get_data d (measures_arg a) (sensor_start_delay a) (sensor_operation_delay a) w =
     Inr ((x, y), w1) \<Longrightarrow>
   cycle a lib d w = export_reading a lib x y w1"
  by (simp add: cycle_def)

lemma cycle_trace:
  "\<exists>sleeps leds rest. list_all is_sleep sleeps \<and> list_all is_file_write leds \<and>
     same_colors leds \<and> list_all (\<lambda>e. \<not> is_file_write e) rest \<and>
     trace (result_world (cycle a lib d w)) = trace w @ sleeps @ leds @ rest"
proof (cases "get_data d (measures_arg a) (sensor_start_delay a) (sensor_operation_delay a) w")
  case (Inl err)
  obtain e w' where err: "err = (e, w')" by (cases err)
  from get_data_Inl [OF Inl [unfolded err]] obtain evs where
    "appended w evs w'" "list_all is_sleep evs" by blast
  with cycle_Inl [OF Inl] err show ?thesis
    by (intro exI [of _ evs] exI [of _ "[]"])
      (simp add: result_world_def appended_def same_colors_def)
next
  case (Inr r)
  obtain x y w1 where r: "r = ((x, y), w1)" by (cases r) auto
  from get_data_Inr [OF Inr [unfolded r]] obtain evs where
    evs: "list_all is_sleep evs" "trace w1 = trace w @ evs" by blast
  from export_reading_world [of a lib x y w1] obtain leds rest where
    "list_all is_file_write leds" "same_colors leds" "list_all (\<lambda>e. \<not> is_file_write e) rest"
    "trace (result_world (export_reading a lib x y w1)) = trace w1 @ leds @ rest"
    by blast
  with evs cycle_Inr [OF Inr [unfolded r]] show ?thesis
    by (intro exI [of _ evs] exI [of _ leds] exI [of _ rest]) simp
qed

text \<open>
  Claim C9. Whatever an iteration writes to the color file of the PM2.5 channel (user1)
  and to the color file of the PM10 channel (user2), it is the same color: both come
  from the one level of the overall index.
\<close>

theorem led_channels_same_color:
  assumes "FileWrite user1_color_file x \<in> set (emitted w (result_world (cycle a lib d w)))"
    and "FileWrite user2_color_file y \<in> set (emitted w (result_world (cycle a lib d w)))"
  shows "x = y"
proof -
  from cycle_trace [of a lib d w] obtain sleeps leds rest where
    t: "list_all is_sleep sleeps" "list_all is_file_write leds" "same_colors leds"
      "list_all (\<lambda>e. \<not> is_file_write e) rest"
      "trace (result_world (cycle a lib d w)) = trace w @ sleeps @ leds @ rest"
    by blast
  then have em: "emitted w (result_world (cycle a lib d w)) = sleeps @ leds @ rest"
    by (simp add: emitted_def)
  have "FileWrite user1_color_file x \<in> set leds"
    using assms(1) t(1,4) unfolding em by (auto simp: list_all_iff)
  moreover have "FileWrite user2_color_file y \<in> set leds"
    using assms(2) t(1,4) unfolding em by (auto simp: list_all_iff)
  ultimately show ?thesis
    using t(3) by (simp add: same_colors_def)
qed

lemma get_data_three_readings:
  "get_data scripted_driver (measures_arg us_args) (sensor_start_delay us_args)
     (sensor_operation_delay us_args) three_readings = Inr ((11, 21), three_measured)"
  by (simp add: run_defs three_measured_def numeral_3_eq_3)

lemma run_three_readings:
  "cycle us_args constant_aqipy scripted_driver three_readings = Inr three_exported"
  by (simp add: run_defs three_measured_def three_exported_def numeral_3_eq_3)

lemma trace_three_exported:
  "trace three_exported =
     [TimeSleep 5, TimeSleep 1, TimeSleep 1, TimeSleep 1, TimeSleep 1,
      FileWrite ''/sys/class/leds/omnia-led:user1/autonomous'' [CHR ''0'', CHR 0x0A],
      FileWrite ''/sys/class/leds/omnia-led:user1/color'' (''121 227 71'' @ [CHR 0x0A]),
      FileWrite ''/sys/class/leds/omnia-led:user2/autonomous'' [CHR ''0'', CHR 0x0A],
      FileWrite ''/sys/class/leds/omnia-led:user2/color'' (''121 227 71'' @ [CHR 0x0A]),
      LogAppend ''aqi.csv'' 11 21 46,
      MqttMultiple ''broker'' 1883
       [(''aqi/aqi'', StrOfInt 46, 0, False),
        (''aqi/level'', StrOfVal (PyDict [(''level'', ''Good'')]), 0, False),
        (''aqi/current_pm25'', StrOfFloat 11, 0, False),
        (''aqi/current_pm10'', StrOfFloat 21, 0, False)],
      TimeSleep 10]"
  by (simp add: three_exported_def)

lemma trace_three_readings: "trace three_readings = []"
  by (simp add: three_readings_def)

theorem led_channels_same_color_witness:
  "FileWrite user1_color_file (''121 227 71'' @ [CHR 0x0A])
     \<in> set (emitted three_readings
         (result_world (cycle us_args constant_aqipy scripted_driver three_readings))) \<and>
   FileWrite user2_color_file (''121 227 71'' @ [CHR 0x0A])
     \<in> set (emitted three_readings
         (result_world (cycle us_args constant_aqipy scripted_driver three_readings))) \<and>
   ''121 227 71'' @ [CHR 0x0A] = ''121 227 71'' @ [CHR 0x0A]"
proof -
  have h1: "FileWrite user1_color_file (''121 227 71'' @ [CHR 0x0A])
     \<in> set (emitted three_readings
         (result_world (cycle us_args constant_aqipy scripted_driver three_readings)))"
    by (simp add: run_three_readings result_world_def emitted_def trace_three_readings
        trace_three_exported user1_color_file_def)
  have h2: "FileWrite user2_color_file (''121 227 71'' @ [CHR 0x0A])
     \<in> set (emitted three_readings
         (result_world (cycle us_args constant_aqipy scripted_driver three_readings)))"
    by (simp add: run_three_readings result_world_def emitted_def trace_three_readings
        trace_three_exported user2_color_file_def)
  from h1 h2 led_channels_same_color [OF h1 h2] show ?thesis by simp
qed

subsection \<open>The metrics\<close>

lemma cycle_metrics:
  assumes "get_data d (measures_arg a) (sensor_start_delay a) (sensor_operation_delay a) w =
     Inr ((x, y), w1)"
  shows "metrics (result_world (cycle a lib d w)) = metrics w1"
  using export_reading_world [of a lib x y w1] cycle_Inr [OF assms, of lib] by auto

lemma cycle_buckets:
  "buckets (PM25_HIST (metrics (result_world (cycle a lib d w)))) =
     buckets (PM25_HIST (metrics w)) \<and>
   buckets (PM10_HIST (metrics (result_world (cycle a lib d w)))) =
     buckets (PM10_HIST (metrics w))"
proof (cases "get_data d (measures_arg a) (sensor_start_delay a) (sensor_operation_delay a) w")
  case (Inl err)
  obtain e w' where err: "err = (e, w')" by (cases err)
  from get_data_Inl [OF Inl [unfolded err]] have "metrics w' = metrics w"
    by (auto simp: appended_def)
  with cycle_Inl [OF Inl] err show ?thesis by (simp add: result_world_def)
next
  case (Inr r)
  obtain x y w1 where r: "r = ((x, y), w1)" by (cases r) auto
  from get_data_Inr [OF Inr [unfolded r]] cycle_metrics [OF Inr [unfolded r]]
  show ?thesis by (auto simp: observe_def)
qed

lemma main_loop_buckets:
  "buckets (PM25_HIST (metrics (result_world (main_loop n a lib d w)))) =
     buckets (PM25_HIST (metrics w)) \<and>
   buckets (PM10_HIST (metrics (result_world (main_loop n a lib d w)))) =
     buckets (PM10_HIST (metrics w))"
proof (induction n arbitrary: w)
  case 0
  show ?case by (simp add: result_world_def)
next
  case (Suc n)
  show ?case
  proof (cases "cycle a lib d w")
    case (Inl err)
    with cycle_buckets [of a lib d w] show ?thesis by simp
  next
    case (Inr w')
    with cycle_buckets [of a lib d w] Suc [of w'] show ?thesis
      by (simp add: result_world_def)
  qed
qed

lemma startup_metrics: "startup cl s = Inr (a, w) \<Longrightarrow> metrics w = initial_metrics"
  by (auto simp: startup_def emit_def Let_def split: sum.splits if_splits)

text \<open>
  Claim C8. When the measurement of an iteration returns the reading \<open>(pm25, pm10)\<close>, the
  iteration leaves the two gauges at \<open>pm25\<close> and \<open>pm10\<close>, has observed \<open>pm25\<close> into the
  PM2.5 histogram and the difference \<open>pm10 - pm25\<close> into the PM10 histogram, whether or
  not a later step of the iteration raises. Both histograms are created with the
  bucket bounds 0, 5, ..., 100 and the main loop never changes them.
\<close>

theorem metrics_sink:
  assumes "get_data d (measures_arg a) (sensor_start_delay a) (sensor_operation_delay a) w =
     Inr ((pm25, pm10), w1)"
  shows "PM25 (metrics (result_world (cycle a lib d w))) = pm25 \<and>
    PM10 (metrics (result_world (cycle a lib d w))) = pm10 \<and>
    observations (PM25_HIST (metrics (result_world (cycle a lib d w)))) =
      observations (PM25_HIST (metrics w)) @ [pm25] \<and>
    observations (PM10_HIST (metrics (result_world (cycle a lib d w)))) =
      observations (PM10_HIST (metrics w)) @ [pm10 - pm25] \<and>
    buckets (PM25_HIST initial_metrics) = map (\<lambda>i. 5 * i) [0..20] \<and>
    buckets (PM10_HIST initial_metrics) = map (\<lambda>i. 5 * i) [0..20] \<and>
    buckets (PM25_HIST (metrics (result_world (main_loop n a lib d w)))) =
      buckets (PM25_HIST (metrics w)) \<and>
    buckets (PM10_HIST (metrics (result_world (main_loop n a lib d w)))) =
      buckets (PM10_HIST (metrics w))"
proof -
  have up: "[0..20::int] = [0, 1, 2, 3, 4, 5, 6, 7, 8, 9, 10, 11, 12, 13, 14, 15, 16, 17, 18, 19, 20]"
    by code_simp
  have b: "buckets (PM25_HIST initial_metrics) = map (\<lambda>i. 5 * i) [0..20]"
    "buckets (PM10_HIST initial_metrics) = map (\<lambda>i. 5 * i) [0..20]"
    by (simp_all add: initial_metrics_def up)
  from get_data_Inr [OF assms] cycle_metrics [OF assms, of lib]
  have "PM25 (metrics (result_world (cycle a lib d w))) = pm25 \<and>
    PM10 (metrics (result_world (cycle a lib d w))) = pm10 \<and>
    observations (PM25_HIST (metrics (result_world (cycle a lib d w)))) =
      observations (PM25_HIST (metrics w)) @ [pm25] \<and>
    observations (PM10_HIST (metrics (result_world (cycle a lib d w)))) =
      observations (PM10_HIST (metrics w)) @ [pm10 - pm25]"
    by (auto simp: observe_def)
  with b main_loop_buckets [of n a lib d w] show ?thesis
    by simp
qed

theorem metrics_sink_witness:
  "get_data scripted_driver (measures_arg us_args) (sensor_start_delay us_args)
      (sensor_operation_delay us_args) three_readings = Inr ((11, 21), three_measured) \<and>
   PM25 (metrics (result_world (cycle us_args constant_aqipy scripted_driver three_readings))) = 11 \<and>
   PM10 (metrics (result_world (cycle us_args constant_aqipy scripted_driver three_readings))) = 21 \<and>
   observations (PM25_HIST (metrics (result_world
     (cycle us_args constant_aqipy scripted_driver three_readings)))) = [11] \<and>
   observations (PM10_HIST (metrics (result_world
     (cycle us_args constant_aqipy scripted_driver three_readings)))) = [21 - 11]"
proof -
  have m: "observations (PM25_HIST (metrics three_readings)) = []"
    "observations (PM10_HIST (metrics three_readings)) = []"
    by (simp_all add: three_readings_def initial_metrics_def)
  from metrics_sink [OF get_data_three_readings, of constant_aqipy 0] m
  have "PM25 (metrics (result_world (cycle us_args constant_aqipy scripted_driver three_readings))) = 11 \<and>
   PM10 (metrics (result_world (cycle us_args constant_aqipy scripted_driver three_readings))) = 21 \<and>
   observations (PM25_HIST (metrics (result_world
     (cycle us_args constant_aqipy scripted_driver three_readings)))) = [11] \<and>
   observations (PM10_HIST (metrics (result_world
     (cycle us_args constant_aqipy scripted_driver three_readings)))) = [21 - 11]"
    by simp
  with get_data_three_readings show ?thesis by (intro conjI) simp_all
qed

subsection \<open>The MQTT topics\<close>











subsection \<open>The country code\<close>

lemma parse_args_country_supported:
  assumes "parse_args cl = Inr a"
  shows "country a \<in> {''CN'', ''EU'', ''US''}"
proof (cases "opt_country cl")
  case None
  with assms have "country a = ''US''"
    by (auto simp: parse_args_def or_default_def)
  then show ?thesis by simp
next
  case (Some v)
  with assms have "v \<in> set [''CN'', ''EU'', ''US'']" and "country a = v"
    by (auto simp: parse_args_def or_default_def split: if_splits)
  then show ?thesis by simp
qed

lemma startup_parse_args: "startup cl s = Inr (a, w) \<Longrightarrow> parse_args cl = Inr a"
  by (cases "parse_args cl"; cases "num_measures (country (projr (parse_args cl))) (delay (projr (parse_args cl)))")
    (auto simp: startup_def Let_def)

text \<open>
  Claim C7. A country given on the command line outside CN, EU and US ends the program
  in \<^verbatim>\<open>parse_args\<close> with exit status 2, before any effect and before the first iteration
  of the loop, however many iterations are asked for; and every namespace that startup
  hands to the loop has a country among the three.
\<close>

theorem unsupported_country_rejected:
  assumes "opt_country cl = Some c" and "c \<notin> {''CN'', ''EU'', ''US''}"
  shows "parse_args cl = Inl (SystemExit 2) \<and> startup cl s = Inl (SystemExit 2) \<and>
    program n cl lib d s = Inl (SystemExit 2, None) \<and>
    (\<forall>cl' a w. startup cl' s = Inr (a, w) \<longrightarrow> country a \<in> {''CN'', ''EU'', ''US''})"
proof -
  have p: "parse_args cl = Inl (SystemExit 2)"
    using assms by (simp add: parse_args_def)
  have "country a \<in> {''CN'', ''EU'', ''US''}" if "startup cl' s = Inr (a, w)" for cl' a w
    using startup_parse_args [OF that] by (rule parse_args_country_supported)
  with p show ?thesis
    by (simp add: startup_def program_def)
qed

theorem unsupported_country_rejected_witness:
  "opt_country fr_cmdline = Some ''FR'' \<and> ''FR'' \<notin> {''CN'', ''EU'', ''US''} \<and>
   program 5 fr_cmdline constant_aqipy scripted_driver [(10, 20), (12, 22), (11, 21)] =
     Inl (SystemExit 2, None)"
  using unsupported_country_rejected [of fr_cmdline "''FR''" "[(10, 20), (12, 22), (11, 21)]" 5
      constant_aqipy scripted_driver]
  by (simp add: fr_cmdline_def us_cmdline_def)

subsection \<open>The measurement\<close>

lemma round_half_even_nearest: "\<bar>of_int (round_half_even y) - y\<bar> \<le> 1 / 2"
proof -
  have "of_int \<lfloor>y\<rfloor> \<le> y" "y < of_int \<lfloor>y\<rfloor> + 1"
    by linarith+
  then show ?thesis
    by (auto simp: round_half_even_def Let_def)
qed

lemma py_round1_nearest: "\<bar>py_round1 x - x\<bar> \<le> 1 / 20"
proof -
  have "\<bar>py_round1 x - x\<bar> = \<bar>of_int (round_half_even (x * 10)) - x * 10\<bar> / 10"
    by (simp add: py_round1_def field_simps abs_if)
  also have "\<dots> \<le> (1 / 2) / 10"
    using round_half_even_nearest [of "x * 10"] by (simp add: divide_right_mono)
  finally show ?thesis by simp
qed

lemma py_round1_tenths: "py_round1 x * 10 = of_int (round_half_even (x * 10))"
  by (simp add: py_round1_def)

lemma query_loop_sub_samples:
  assumes "0 \<le> od"
  shows "sub_samples d k (sensor w) = Inr (xs, s') \<Longrightarrow>
    \<exists>w'. query_loop d od k acc w =
        Inr ((fst acc + sum_list (map fst xs), snd acc + sum_list (map snd xs)), w') \<and>
      sensor w' = s' \<and> length xs = k"
proof (induction k arbitrary: acc w xs)
  case 0
  then show ?case by simp
next
  case (Suc k)
  from Suc.prems obtain x s1 xs' where
    q: "query d (sensor w) = Inr (x, s1)" and
    r: "sub_samples d k s1 = Inr (xs', s')" and
    xs: "xs = x # xs'"
    by (auto split: sum.splits prod.splits)
  let ?w1 = "emit (TimeSleep od) (w\<lparr>sensor := s1\<rparr>)"
  have "sensor ?w1 = s1" by (simp add: emit_def)
  with r have "sub_samples d k (sensor ?w1) = Inr (xs', s')" by simp
  from Suc.IH [OF this, of "(fst acc + fst x, snd acc + snd x)"] obtain w' where
    "query_loop d od k (fst acc + fst x, snd acc + snd x) ?w1 =
       Inr ((fst acc + fst x + sum_list (map fst xs'), snd acc + snd x + sum_list (map snd xs')), w')"
    "sensor w' = s'" "length xs' = k"
    by auto
  with q xs assms show ?case
    by (simp add: time_sleep_def add.assoc)
qed

lemma query_loop_failure:
  assumes "0 \<le> od"
  shows "sub_samples d k (sensor w) = Inl e \<Longrightarrow> \<exists>w'. query_loop d od k acc w = Inl (e, w')"
proof (induction k arbitrary: acc w)
  case 0
  then show ?case by simp
next
  case (Suc k)
  show ?case
  proof (cases "query d (sensor w)")
    case (Inl e')
    with Suc.prems show ?thesis by simp
  next
    case (Inr r)
    obtain x s1 where r: "r = (x, s1)" by (cases r)
    let ?w1 = "emit (TimeSleep od) (w\<lparr>sensor := s1\<rparr>)"
    have "sensor ?w1 = s1" by (simp add: emit_def)
    with Suc.prems Inr r have "sub_samples d k (sensor ?w1) = Inl e"
      by (auto split: sum.splits prod.splits)
    from Suc.IH [OF this, of "(fst acc + fst x, snd acc + snd x)"] Inr r assms show ?thesis
      by (simp add: time_sleep_def)
  qed
qed

theorem sampler_mean:
  assumes "1 \<le> k" and "0 \<le> start_delay" and "0 \<le> operation_delay"
    and "sleep_False d (sensor w) = Inr s1"
    and "sub_samples d k s1 = Inr (xs, s2)"
    and "sleep_True d s2 = Inr s3"
  shows "length xs = k \<and>
    (\<exists>w'. get_data d (int k) start_delay operation_delay w =
       Inr ((py_round1 (sum_list (map fst xs) / of_nat k),
             py_round1 (sum_list (map snd xs) / of_nat k)), w')) \<and>
    \<bar>py_round1 (sum_list (map fst xs) / of_nat k) - sum_list (map fst xs) / of_nat k\<bar> \<le> 1 / 20 \<and>
    \<bar>py_round1 (sum_list (map snd xs) / of_nat k) - sum_list (map snd xs) / of_nat k\<bar> \<le> 1 / 20 \<and>
    sub_samples scripted_driver 3 [(10, 20), (12, 22), (11, 21)] =
      Inr ([(10, 20), (12, 22), (11, 21)], []) \<and>
    get_data scripted_driver 3 5 1 three_readings = Inr ((11, 21), three_measured)"
proof -
  let ?w1 = "emit (TimeSleep start_delay) (w\<lparr>sensor := s1\<rparr>)"
  have "sensor ?w1 = s1" by (simp add: emit_def)
  with assms(5) have "sub_samples d k (sensor ?w1) = Inr (xs, s2)" by simp
  from query_loop_sub_samples [OF assms(3) this, of "(0, 0)"] obtain w2 where
    w2: "query_loop d operation_delay k (0, 0) ?w1 =
        Inr ((sum_list (map fst xs), sum_list (map snd xs)), w2)"
      "sensor w2 = s2" "length xs = k"
    by auto
  have "\<exists>w'. get_data d (int k) start_delay operation_delay w =
       Inr ((py_round1 (sum_list (map fst xs) / of_nat k),
             py_round1 (sum_list (map snd xs) / of_nat k)), w')"
    using assms(1,2,3,4,6) w2(1,2)
    by (simp add: get_data_def time_sleep_def Let_def)
  moreover have "sub_samples scripted_driver 3 [(10, 20), (12, 22), (11, 21)] =
      Inr ([(10, 20), (12, 22), (11, 21)], [])"
    by (simp add: scripted_driver_def numeral_3_eq_3)
  moreover have "get_data scripted_driver 3 5 1 three_readings = Inr ((11, 21), three_measured)"
    using get_data_three_readings by (simp add: us_args_def)
  ultimately show ?thesis
    using w2(3) py_round1_nearest by blast
qed

theorem sampler_mean_witness:
  "(1::nat) \<le> 3 \<and> (0::int) \<le> 5 \<and> (0::int) \<le> 1 \<and>
   sleep_False scripted_driver (sensor three_readings) = Inr [(10, 20), (12, 22), (11, 21)] \<and>
   sub_samples scripted_driver 3 [(10, 20), (12, 22), (11, 21)] =
     Inr ([(10, 20), (12, 22), (11, 21)], []) \<and>
   sleep_True scripted_driver [] = Inr [] \<and>
   (\<exists>w'. get_data scripted_driver 3 5 1 three_readings = Inr ((11, 21), w'))"
proof -
  have h4: "sleep_False scripted_driver (sensor three_readings) = Inr [(10, 20), (12, 22), (11, 21)]"
    by (simp add: scripted_driver_def three_readings_def)
  have h5: "sub_samples scripted_driver 3 [(10, 20), (12, 22), (11, 21)] =
     Inr ([(10, 20), (12, 22), (11, 21)], [])"
    by (simp add: scripted_driver_def numeral_3_eq_3)
  have h6: "sleep_True scripted_driver [] = Inr []"
    by (simp add: scripted_driver_def)
  have r: "py_round1 ((10 + 12 + 11) / 3) = 11" "py_round1 ((20 + 22 + 21) / 3) = 21"
    by (simp_all add: py_round1_def round_half_even_def)
  from sampler_mean [of 3 5 1, OF _ _ _ h4 h5 h6]
  have "\<exists>w'. get_data scripted_driver 3 5 1 three_readings = Inr ((11, 21), w')"
    using r by simp
  with h4 h5 h6 show ?thesis by simp
qed

end
